theory Spec2Isabelle
  imports Main "HOL-Library.AList"
begin

section \<open>JavaScript strings as the storage layer uses them\<close>

text \<open>
  A JavaScript string is modelled as a \<^typ>\<open>string\<close>: a list of code units. The storage
  layer only maps, concatenates and compares strings, which is the same on either
  representation.
\<close>

definition backslash :: char where
  "backslash = CHR 0x5C"

definition slash :: char where
  "slash = CHR ''/''"

text \<open>\<^verbatim>\<open>s.replace(/\\/g, "/")\<close>: every backslash becomes a forward slash.\<close>

definition replace_backslashes :: "string \<Rightarrow> string" where
  "replace_backslashes s = map (\<lambda>c. if c = backslash then slash else c) s"

text \<open>\<^verbatim>\<open>s.startsWith(t)\<close> and \<^verbatim>\<open>s.endsWith(t)\<close>.\<close>

definition startsWith :: "string \<Rightarrow> string \<Rightarrow> bool" where
  "startsWith s t = (take (length t) s = t)"

definition endsWith :: "string \<Rightarrow> string \<Rightarrow> bool" where
  "endsWith s t = (length t \<le> length s \<and> drop (length s - length t) s = t)"

text \<open>\<^verbatim>\<open>s.slice(1)\<close>: the string without its first code unit.\<close>

definition slice1 :: "string \<Rightarrow> string" where
  "slice1 s = drop 1 s"

section \<open>Storage options and the identifier resolver\<close>

text \<open>
  \<^verbatim>\<open>interface StorageOptions { extension?: string; noCache?: boolean; noFile?: boolean }\<close>.
  An optional field that is left out is \<open>None\<close>; the options argument itself is optional
  too, so the methods take a \<open>StorageOptions option\<close>.
\<close>

record StorageOptions =
  extension :: "string option"
  noCache :: "bool option"
  noFile :: "bool option"

text \<open>Truthiness of an optional boolean field: only \<^verbatim>\<open>true\<close> is truthy.\<close>

definition truthy_flag :: "bool option \<Rightarrow> bool" where
  "truthy_flag b = (b = Some True)"

text \<open>\<^verbatim>\<open>options?.extension\<close>, \<^verbatim>\<open>options?.noCache\<close> and \<^verbatim>\<open>options && options.noFile\<close>.\<close>

definition opt_extension :: "StorageOptions option \<Rightarrow> string option" where
  "opt_extension options = (case options of None \<Rightarrow> None | Some opts \<Rightarrow> extension opts)"

definition opt_noCache :: "StorageOptions option \<Rightarrow> bool" where
  "opt_noCache options = (case options of None \<Rightarrow> False | Some opts \<Rightarrow> truthy_flag (noCache opts))"

definition opt_noFile :: "StorageOptions option \<Rightarrow> bool" where
  "opt_noFile options = (case options of None \<Rightarrow> False | Some opts \<Rightarrow> truthy_flag (noFile opts))"

text \<open>\<^verbatim>\<open>BaseStorage._defaultOptions\<close> and \<^verbatim>\<open>BaseStorage._rootPath\<close>.\<close>

definition defaultOptions :: StorageOptions where
  "defaultOptions = \<lparr>extension = Some ''json'', noCache = None, noFile = None\<rparr>"

definition rootPath :: string where
  "rootPath = ''./data''"

text \<open>
  The default value of the parameter \<^verbatim>\<open>extension\<close> of \<^verbatim>\<open>_idPath\<close>,
  \<^verbatim>\<open>this._defaultOptions.extension ?? "json"\<close>, is taken when the argument is
  \<^verbatim>\<open>undefined\<close>.
\<close>

definition extension_or_default :: "string option \<Rightarrow> string" where
  "extension_or_default e =
     (case e of
        Some ext \<Rightarrow> ext
      | None \<Rightarrow> (case extension defaultOptions of Some d \<Rightarrow> d | None \<Rightarrow> ''json''))"

text \<open>\<^verbatim>\<open>BaseStorage._dirPath(dir)\<close>: converts a raw directory to a file path.\<close>

definition dirPath :: "string \<Rightarrow> string" where
  "dirPath dir0 =
     (let dir1 = replace_backslashes dir0;
          dir2 = (if startsWith dir1 ''/'' then slice1 dir1 else dir1);
          dir3 = (if endsWith dir2 ''/'' then dir2 else dir2 @ ''/'')
      in rootPath @ ''/'' @ dir3)"

text \<open>\<^verbatim>\<open>BaseStorage._idPath(id, extension)\<close>: converts a raw identifier to a file path.\<close>

definition idPath :: "string \<Rightarrow> string option \<Rightarrow> string" where
  "idPath id0 e =
     (let ext = extension_or_default e;
          id1 = replace_backslashes id0;
          id2 = (if startsWith id1 ''/'' then slice1 id1 else id1)
      in if endsWith id2 ext then rootPath @ ''/'' @ id2
         else rootPath @ ''/'' @ id2 @ ''.'' @ ext)"

section \<open>Values, errors and asynchronous tasks\<close>

text \<open>
  The payloads the storage layer moves: JavaScript values restricted to the JSON universe,
  with integers for numbers, plus \<^verbatim>\<open>undefined\<close>, which \<^verbatim>\<open>get\<close> returns for an absent
  entry. An object is the list of its properties in enumeration order.
\<close>

datatype jsvalue =
    Undefined
  | Null
  | Bool bool
  | Num int
  | Str string
  | Arr "jsvalue list"
  | Obj "(string \<times> jsvalue) list"

text \<open>
  What a call can throw: a rejected file-system promise, the \<^verbatim>\<open>SyntaxError\<close> of
  \<^verbatim>\<open>JSON.parse\<close>, or whatever a caller-supplied predicate throws.
\<close>

datatype error = IOError | SyntaxError | CallerError

text \<open>
  A method call is a function of the state that returns its (awaited) result or the
  error it threw, together with the state it left behind.
\<close>

type_synonym ('s, 'a) task = "'s \<Rightarrow> (error + 'a) \<times> 's"

definition return_task :: "'a \<Rightarrow> ('s, 'a) task" where
  "return_task a s = (Inr a, s)"

definition throw_task :: "error \<Rightarrow> ('s, 'a) task" where
  "throw_task e s = (Inl e, s)"

definition bind_task :: "('s, 'a) task \<Rightarrow> ('a \<Rightarrow> ('s, 'b) task) \<Rightarrow> ('s, 'b) task" where
  "bind_task m f s = (case m s of (Inl e, s') \<Rightarrow> (Inl e, s') | (Inr a, s') \<Rightarrow> f a s')"

definition read_state :: "('s \<Rightarrow> 'a) \<Rightarrow> ('s, 'a) task" where
  "read_state f s = (Inr (f s), s)"

definition update_state :: "('s \<Rightarrow> 's) \<Rightarrow> ('s, unit) task" where
  "update_state f s = (Inr (), f s)"

text \<open>
  \<^verbatim>\<open>Awaitable<T>\<close>: a plain value or a promise of one. Awaiting gives the value
  either way; as the condition of an \<^verbatim>\<open>if\<close> a promise object is always truthy.
\<close>

datatype 'a Awaitable = Immediate 'a | Promise 'a

fun await :: "'a Awaitable \<Rightarrow> 'a" where
  "await (Immediate a) = a"
| "await (Promise a) = a"

fun truthy :: "bool Awaitable \<Rightarrow> bool" where
  "truthy (Immediate b) = b"
| "truthy (Promise b) = True"

text \<open>\<^verbatim>\<open>autoCatch(promise)\<close> of \<^verbatim>\<open>utility/common.ts\<close>.\<close>

datatype 'a AutoCatchResult = AutoCatchSuccess 'a | AutoCatchFailure error

fun result :: "'a AutoCatchResult \<Rightarrow> bool" where
  "result (AutoCatchSuccess content) = True"
| "result (AutoCatchFailure e) = False"

definition autoCatch :: "('s, 'a) task \<Rightarrow> ('s, 'a AutoCatchResult) task" where
  "autoCatch promise s =
     (case promise s of
        (Inr content, s') \<Rightarrow> (Inr (AutoCatchSuccess content), s')
      | (Inl e, s') \<Rightarrow> (Inr (AutoCatchFailure e), s'))"

section \<open>The platform: JSON text\<close>

text \<open>
  \<^verbatim>\<open>JSON.stringify(data, null, "\t")\<close>, \<^verbatim>\<open>JSON.parse(text)\<close> and the template string
  \<^verbatim>\<open>`${data}`\<close> are built into the language, not code of the repository. They are
  modelled after ECMAScript on the values of \<^typ>\<open>jsvalue\<close>, within these bounds.
  \<^item> \<open>Num n\<close> stands for the number \<open>n\<close> where a double holds \<open>n\<close> exactly and prints
    it in plain digits: magnitudes below \<open>2^53\<close>. Beyond that the language rounds and,
    from \<open>10^21\<close> on, prints an exponent; the model computes with the exact integer.
  \<^item> A number text may carry a fraction and an exponent; it is read exactly. A text
    whose value is not an integer has no value in \<^typ>\<open>jsvalue\<close> and is refused.
  \<^item> A string is a list of bytes; an escape \<^verbatim>\<open>\uXXXX\<close> above \<^verbatim>\<open>00ff\<close> is refused.
  \<^item> An object lists its properties as the language enumerates them: array indices in
    ascending order first, then the other keys in the order of their creation.
\<close>

definition dquote :: char where
  "dquote = CHR 0x22"

definition newline :: char where
  "newline = CHR 0x0A"

definition tab :: char where
  "tab = CHR 0x09"

fun join :: "string \<Rightarrow> string list \<Rightarrow> string" where
  "join sep [] = []"
| "join sep [p] = p"
| "join sep (p # q # ps) = p @ sep @ join sep (q # ps)"

definition digit_char :: "nat \<Rightarrow> char" where
  "digit_char d = char_of (of_char CHR ''0'' + d)"

fun digits :: "nat \<Rightarrow> string" where
  "digits n = (if n < 10 then [digit_char n] else digits (n div 10) @ [digit_char (n mod 10)])"

declare digits.simps [simp del]

definition number_to_string :: "int \<Rightarrow> string" where
  "number_to_string i = (if i < 0 then CHR ''-'' # digits (nat (- i)) else digits (nat i))"

definition hex_char :: "nat \<Rightarrow> char" where
  "hex_char d = (if d < 10 then digit_char d else char_of (of_char CHR ''a'' + (d - 10)))"

definition escape_char :: "char \<Rightarrow> string" where
  "escape_char c =
     (if c = CHR 0x08 then [backslash, CHR ''b'']
      else if c = tab then [backslash, CHR ''t'']
      else if c = newline then [backslash, CHR ''n'']
      else if c = CHR 0x0C then [backslash, CHR ''f'']
      else if c = CHR 0x0D then [backslash, CHR ''r'']
      else if c = dquote then [backslash, dquote]
      else if c = backslash then [backslash, backslash]
      else if (of_char c :: nat) < 32
        then [backslash, CHR ''u'', CHR ''0'', CHR ''0'',
              hex_char (of_char c div 16), hex_char (of_char c mod 16)]
      else [c])"

definition QuoteJSONString :: "string \<Rightarrow> string" where
  "QuoteJSONString s = dquote # concat (map escape_char s) @ [dquote]"

fun SerializeJSONProperty :: "string \<Rightarrow> jsvalue \<Rightarrow> string option"
  and SerializeJSONElements :: "string \<Rightarrow> jsvalue list \<Rightarrow> string list"
  and SerializeJSONMembers :: "string \<Rightarrow> (string \<times> jsvalue) list \<Rightarrow> string list"
where
  "SerializeJSONProperty indent Undefined = None"
| "SerializeJSONProperty indent Null = Some ''null''"
| "SerializeJSONProperty indent (Bool b) = Some (if b then ''true'' else ''false'')"
| "SerializeJSONProperty indent (Num n) = Some (number_to_string n)"
| "SerializeJSONProperty indent (Str s) = Some (QuoteJSONString s)"
| "SerializeJSONProperty indent (Arr xs) =
     Some (case SerializeJSONElements (indent @ [tab]) xs of
             [] \<Rightarrow> ''[]''
           | p # ps \<Rightarrow> ''['' @ [newline] @ indent @ [tab]
               @ join ('','' @ [newline] @ indent @ [tab]) (p # ps)
               @ [newline] @ indent @ '']'')"
| "SerializeJSONProperty indent (Obj ms) =
     Some (case SerializeJSONMembers (indent @ [tab]) ms of
             [] \<Rightarrow> ''{}''
           | p # ps \<Rightarrow> ''{'' @ [newline] @ indent @ [tab]
               @ join ('','' @ [newline] @ indent @ [tab]) (p # ps)
               @ [newline] @ indent @ ''}'')"
| "SerializeJSONElements indent [] = []"
| "SerializeJSONElements indent (x # xs) =
     (case SerializeJSONProperty indent x of None \<Rightarrow> ''null'' | Some t \<Rightarrow> t)
       # SerializeJSONElements indent xs"
| "SerializeJSONMembers indent [] = []"
| "SerializeJSONMembers indent ((k, v) # ms) =
     (case SerializeJSONProperty indent v of
        None \<Rightarrow> SerializeJSONMembers indent ms
      | Some t \<Rightarrow> (QuoteJSONString k @ '': '' @ t) # SerializeJSONMembers indent ms)"

definition JSON_stringify :: "jsvalue \<Rightarrow> string option" where
  "JSON_stringify data = SerializeJSONProperty [] data"

fun template_string :: "jsvalue \<Rightarrow> string"
  and template_elements :: "jsvalue list \<Rightarrow> string list"
where
  "template_string Undefined = ''undefined''"
| "template_string Null = ''null''"
| "template_string (Bool b) = (if b then ''true'' else ''false'')"
| "template_string (Num n) = number_to_string n"
| "template_string (Str s) = s"
| "template_string (Arr xs) = join '','' (template_elements xs)"
| "template_string (Obj ms) = ''[object Object]''"
| "template_elements [] = []"
| "template_elements (x # xs) =
     (if x = Undefined \<or> x = Null then [] else template_string x) # template_elements xs"

definition is_ws :: "char \<Rightarrow> bool" where
  "is_ws c = (c = CHR '' '' \<or> c = tab \<or> c = newline \<or> c = CHR 0x0D)"

definition skip_ws :: "string \<Rightarrow> string" where
  "skip_ws s = dropWhile is_ws s"

definition is_digit :: "char \<Rightarrow> bool" where
  "is_digit c = (48 \<le> (of_char c :: nat) \<and> (of_char c :: nat) \<le> 57)"


definition digit_value :: "char \<Rightarrow> nat" where
  "digit_value c = of_char c - 48"

definition hex_value :: "char \<Rightarrow> nat option" where
  "hex_value c =
     (let n = (of_char c :: nat) in
      if 48 \<le> n \<and> n \<le> 57 then Some (n - 48)
      else if 97 \<le> n \<and> n \<le> 102 then Some (n - 87)
      else if 65 \<le> n \<and> n \<le> 70 then Some (n - 55)
      else None)"

definition hex4 :: "string \<Rightarrow> char option" where
  "hex4 h =
     (case map hex_value h of
        [Some a, Some b, Some c, Some d] \<Rightarrow>
          (if a = 0 \<and> b = 0 then Some (char_of (16 * c + d)) else None)
      | _ \<Rightarrow> None)"

definition unescape :: "char \<Rightarrow> char option" where
  "unescape e =
     (if e = dquote then Some dquote
      else if e = backslash then Some backslash
      else if e = CHR ''/'' then Some CHR ''/''
      else if e = CHR ''b'' then Some (CHR 0x08)
      else if e = CHR ''f'' then Some (CHR 0x0C)
      else if e = CHR ''n'' then Some newline
      else if e = CHR ''r'' then Some (CHR 0x0D)
      else if e = CHR ''t'' then Some tab
      else None)"

function parse_chars :: "string \<Rightarrow> (string \<times> string) option" where
  "parse_chars [] = None"
| "parse_chars (c # cs) =
     (if c = dquote then Some ([], cs)
      else if c = backslash then
        (case cs of
           [] \<Rightarrow> None
         | e # r \<Rightarrow>
             if e = CHR ''u'' then
               (case hex4 (take 4 r) of
                  None \<Rightarrow> None
                | Some d \<Rightarrow> map_option (apfst ((#) d)) (parse_chars (drop 4 r)))
             else
               (case unescape e of
                  None \<Rightarrow> None
                | Some d \<Rightarrow> map_option (apfst ((#) d)) (parse_chars r)))
      else if (of_char c :: nat) < 32 then None
      else map_option (apfst ((#) c)) (parse_chars cs))"
  by pat_completeness auto
termination
  by (relation "measure length") auto

definition digits_value :: "string \<Rightarrow> int" where
  "digits_value ds = foldl (\<lambda>a d. 10 * a + int (digit_value d)) 0 ds"

text \<open>\<open>m\<close> times ten to the power \<open>k\<close>, where that is an integer.\<close>

definition scale10 :: "int \<Rightarrow> int \<Rightarrow> int option" where
  "scale10 m k =
     (if 0 \<le> k then Some (m * 10 ^ nat k)
      else if m mod 10 ^ nat (- k) = 0 then Some (m div 10 ^ nat (- k))
      else None)"

text \<open>
  A JSON number: an optional minus sign, an integer part without a leading zero, an
  optional fraction (a point and at least one digit) and an optional exponent (\<open>e\<close> or
  \<open>E\<close>, an optional sign and at least one digit).
\<close>

definition parse_number :: "string \<Rightarrow> (jsvalue \<times> string) option" where
  "parse_number t =
     (let negative = startsWith t ''-'';
          body = (if negative then drop 1 t else t);
          ds = takeWhile is_digit body;
          after_int = dropWhile is_digit body;
          has_fraction = startsWith after_int ''.'';
          fs = (if has_fraction then takeWhile is_digit (drop 1 after_int) else []);
          after_fraction =
            (if has_fraction then dropWhile is_digit (drop 1 after_int) else after_int);
          has_exponent = (startsWith after_fraction ''e'' \<or> startsWith after_fraction ''E'');
          after_e = drop 1 after_fraction;
          exponent_negative = startsWith after_e ''-'';
          after_sign =
            (if startsWith after_e ''-'' \<or> startsWith after_e ''+'' then drop 1 after_e
             else after_e);
          es = (if has_exponent then takeWhile is_digit after_sign else []);
          rest = (if has_exponent then dropWhile is_digit after_sign else after_fraction);
          exponent = (if exponent_negative then - digits_value es else digits_value es)
      in if ds = [] then None
         else if 1 < length ds \<and> startsWith ds ''0'' then None
         else if has_fraction \<and> fs = [] then None
         else if has_exponent \<and> es = [] then None
         else (case scale10 (digits_value (ds @ fs)) (exponent - int (length fs)) of
                 None \<Rightarrow> None
               | Some n \<Rightarrow> Some (Num (if negative then - n else n), rest)))"

text \<open>
  The properties of the object a JSON text denotes. A key that is an array index (the
  canonical decimal of an integer below \<open>2^32 - 1\<close>) is enumerated before every other
  key, in ascending order; the other keys follow in the order of their first
  occurrence. A repeated key keeps its place and takes the later value.
\<close>

definition array_index :: "string \<Rightarrow> int option" where
  "array_index k =
     (if k = [] then None
      else if dropWhile is_digit k \<noteq> [] then None
      else if 1 < length k \<and> startsWith k ''0'' then None
      else if digits_value k < 2 ^ 32 - 1 then Some (digits_value k)
      else None)"

definition enumerated_before :: "string \<Rightarrow> string \<Rightarrow> bool" where
  "enumerated_before k k' =
     (case array_index k of
        None \<Rightarrow> False
      | Some i \<Rightarrow> (case array_index k' of None \<Rightarrow> True | Some j \<Rightarrow> i < j))"

fun insert_property ::
  "string \<Rightarrow> jsvalue \<Rightarrow> (string \<times> jsvalue) list \<Rightarrow> (string \<times> jsvalue) list" where
  "insert_property k v [] = [(k, v)]"
| "insert_property k v ((k', v') # ms) =
     (if enumerated_before k k' then (k, v) # (k', v') # ms
      else (k', v') # insert_property k v ms)"

definition define_property ::
  "string \<Rightarrow> jsvalue \<Rightarrow> (string \<times> jsvalue) list \<Rightarrow> (string \<times> jsvalue) list" where
  "define_property k v ms =
     (if map_of ms k = None then insert_property k v ms else AList.update k v ms)"

definition object_of_members :: "(string \<times> jsvalue) list \<Rightarrow> (string \<times> jsvalue) list" where
  "object_of_members raw = foldl (\<lambda>acc (k, v). define_property k v acc) [] raw"

fun parse_value :: "nat \<Rightarrow> string \<Rightarrow> (jsvalue \<times> string) option"
  and parse_elements :: "nat \<Rightarrow> string \<Rightarrow> (jsvalue list \<times> string) option"
  and parse_members :: "nat \<Rightarrow> string \<Rightarrow> ((string \<times> jsvalue) list \<times> string) option"
where
  "parse_value 0 cs = None"
| "parse_value (Suc n) cs =
     (let t = skip_ws cs in
      if startsWith t ''null'' then Some (Null, drop 4 t)
      else if startsWith t ''true'' then Some (Bool True, drop 4 t)
      else if startsWith t ''false'' then Some (Bool False, drop 5 t)
      else
        (case t of
           [] \<Rightarrow> None
         | c # r \<Rightarrow>
             if c = dquote then map_option (apfst Str) (parse_chars r)
             else if c = CHR ''['' then
               (if startsWith (skip_ws r) '']'' then Some (Arr [], drop 1 (skip_ws r))
                else map_option (apfst Arr) (parse_elements n r))
             else if c = CHR ''{'' then
               (if startsWith (skip_ws r) ''}'' then Some (Obj [], drop 1 (skip_ws r))
                else map_option (apfst (\<lambda>raw. Obj (object_of_members raw))) (parse_members n r))
             else parse_number t))"
| "parse_elements 0 cs = None"
| "parse_elements (Suc n) cs =
     (case parse_value n cs of
        None \<Rightarrow> None
      | Some (v, r) \<Rightarrow>
          (case skip_ws r of
             [] \<Rightarrow> None
           | c # r' \<Rightarrow>
               if c = CHR '','' then map_option (apfst ((#) v)) (parse_elements n r')
               else if c = CHR '']'' then Some ([v], r')
               else None))"
| "parse_members 0 cs = None"
| "parse_members (Suc n) cs =
     (case skip_ws cs of
        [] \<Rightarrow> None
      | q # r \<Rightarrow>
          if q \<noteq> dquote then None
          else
            (case parse_chars r of
               None \<Rightarrow> None
             | Some (k, r1) \<Rightarrow>
                 (case skip_ws r1 of
                    [] \<Rightarrow> None
                  | c1 # r2 \<Rightarrow>
                      if c1 \<noteq> CHR '':'' then None
                      else
                        (case parse_value n r2 of
                           None \<Rightarrow> None
                         | Some (v, r3) \<Rightarrow>
                             (case skip_ws r3 of
                                [] \<Rightarrow> None
                              | c3 # r4 \<Rightarrow>
                                  if c3 = CHR '','' then
                                    map_option (apfst ((#) (k, v))) (parse_members n r4)
                                  else if c3 = CHR ''}'' then Some ([(k, v)], r4)
                                  else None)))))"

definition JSON_parse :: "string \<Rightarrow> error + jsvalue" where
  "JSON_parse text =
     (case parse_value (Suc (2 * length text)) text of
        None \<Rightarrow> Inl SyntaxError
      | Some (v, rest) \<Rightarrow> if skip_ws rest = [] then Inr v else Inl SyntaxError)"

section \<open>The platform: the file system\<close>

text \<open>
  \<^verbatim>\<open>fs/promises\<close> of the runtime, on a tree of regular files and directories without
  links or permissions. The tree is a table from locations (the names on the way down
  from the root directory) to nodes, one row per location; a directory lists its
  children in the order of the table. The process runs with the root directory as its
  working directory, so a relative path is resolved from the root, and \<open>..\<close> at the
  root stays at the root.
\<close>

datatype node = File string | Directory

type_synonym location = "string list"

type_synonym filesystem = "(location \<times> node) list"

definition node_at :: "filesystem \<Rightarrow> location \<Rightarrow> node option" where
  "node_at fs p = (if p = [] then Some Directory else map_of fs p)"

fun split_path :: "string \<Rightarrow> string list" where
  "split_path [] = [[]]"
| "split_path (c # cs) =
     (if c = slash then [] # split_path cs
      else (case split_path cs of [] \<Rightarrow> [[c]] | seg # segs \<Rightarrow> (c # seg) # segs))"

text \<open>
  Path resolution: an empty segment is skipped; every other segment is taken from a
  directory (or resolution fails), \<open>.\<close> stays, \<open>..\<close> goes up, a name goes down.
\<close>

fun walk :: "filesystem \<Rightarrow> location \<Rightarrow> string list \<Rightarrow> location option" where
  "walk fs cur [] = Some cur"
| "walk fs cur (seg # segs) =
     (if seg = [] then walk fs cur segs
      else if node_at fs cur \<noteq> Some Directory then None
      else if seg = ''.'' then walk fs cur segs
      else if seg = ''..'' then walk fs (butlast cur) segs
      else walk fs (cur @ [seg]) segs)"

definition locate :: "filesystem \<Rightarrow> string \<Rightarrow> location option" where
  "locate fs path = walk fs [] (split_path path)"

text \<open>A path to a regular file does not end in a separator.\<close>

definition locate_file :: "filesystem \<Rightarrow> string \<Rightarrow> location option" where
  "locate_file fs path = (if endsWith path ''/'' then None else locate fs path)"

text \<open>\<^verbatim>\<open>FS.readFile(path)\<close>: the content of the regular file at \<open>path\<close>.\<close>

definition FS_readFile :: "string \<Rightarrow> (filesystem, string) task" where
  "FS_readFile path fs =
     (case locate_file fs path of
        None \<Rightarrow> (Inl IOError, fs)
      | Some p \<Rightarrow>
          (case node_at fs p of
             Some (File content) \<Rightarrow> (Inr content, fs)
           | _ \<Rightarrow> (Inl IOError, fs)))"

text \<open>
  \<^verbatim>\<open>FS.writeFile(path, data)\<close>: creates or overwrites the regular file at \<open>path\<close>, whose
  directory must exist. Data that is \<^verbatim>\<open>undefined\<close> is rejected.
\<close>

definition FS_writeFile :: "string \<Rightarrow> string option \<Rightarrow> (filesystem, unit) task" where
  "FS_writeFile path data fs =
     (case data of
        None \<Rightarrow> (Inl IOError, fs)
      | Some raw \<Rightarrow>
          (case locate_file fs path of
             None \<Rightarrow> (Inl IOError, fs)
           | Some p \<Rightarrow>
               if node_at fs p = Some Directory then (Inl IOError, fs)
               else if node_at fs (butlast p) = Some Directory
                 then (Inr (), AList.update p (File raw) fs)
               else (Inl IOError, fs)))"

text \<open>
  \<^verbatim>\<open>FS.mkdir(path)\<close>, without \<^verbatim>\<open>recursive\<close>: creates the one directory \<open>path\<close>; fails
  when it exists or when its parent directory does not.
\<close>

definition FS_mkdir :: "string \<Rightarrow> (filesystem, unit) task" where
  "FS_mkdir path fs =
     (case locate fs path of
        None \<Rightarrow> (Inl IOError, fs)
      | Some p \<Rightarrow>
          if node_at fs p \<noteq> None then (Inl IOError, fs)
          else if node_at fs (butlast p) = Some Directory
            then (Inr (), AList.update p Directory fs)
          else (Inl IOError, fs))"

text \<open>\<^verbatim>\<open>FS.rm(path)\<close>, without \<^verbatim>\<open>recursive\<close> or \<^verbatim>\<open>force\<close>: removes a regular file.\<close>

definition FS_rm :: "string \<Rightarrow> (filesystem, unit) task" where
  "FS_rm path fs =
     (case locate_file fs path of
        None \<Rightarrow> (Inl IOError, fs)
      | Some p \<Rightarrow>
          (case node_at fs p of
             Some (File content) \<Rightarrow> (Inr (), AList.delete p fs)
           | _ \<Rightarrow> (Inl IOError, fs)))"

text \<open>\<^verbatim>\<open>FS.readdir(path, { withFileTypes: true })\<close>: the entries of a directory.\<close>

datatype Dirent = Dirent (dirent_name: string) (isFile: bool)

fun is_regular :: "node \<Rightarrow> bool" where
  "is_regular (File content) = True"
| "is_regular Directory = False"

definition children :: "filesystem \<Rightarrow> location \<Rightarrow> Dirent list" where
  "children fs p =
     map (\<lambda>(q, n). Dirent (last q) (is_regular n))
       (filter (\<lambda>(q, n). q \<noteq> [] \<and> butlast q = p) fs)"

definition FS_readdir :: "string \<Rightarrow> (filesystem, Dirent list) task" where
  "FS_readdir path fs =
     (case locate fs path of
        None \<Rightarrow> (Inl IOError, fs)
      | Some p \<Rightarrow>
          if node_at fs p = Some Directory then (Inr (children fs p), fs)
          else (Inl IOError, fs))"

section \<open>The cache backend\<close>

text \<open>
  \<^verbatim>\<open>Map<string, unknown>\<close>: a table with one row per key in insertion order.
  \<^verbatim>\<open>Map.set\<close> overwrites the row of a key that is present and appends one otherwise.
\<close>

type_synonym cache = "(string \<times> jsvalue) list"

definition Map_has :: "cache \<Rightarrow> string \<Rightarrow> bool" where
  "Map_has m k = (map_of m k \<noteq> None)"

definition Map_get :: "cache \<Rightarrow> string \<Rightarrow> jsvalue" where
  "Map_get m k = (case map_of m k of None \<Rightarrow> Undefined | Some v \<Rightarrow> v)"

definition Map_set :: "string \<Rightarrow> jsvalue \<Rightarrow> cache \<Rightarrow> cache" where
  "Map_set k v m = AList.update k v m"

definition Map_delete :: "string \<Rightarrow> (cache, bool) task" where
  "Map_delete k m = (Inr (Map_has m k), AList.delete k m)"

text \<open>\<^verbatim>\<open>class CacheStorage\<close>; the state is the private map \<^verbatim>\<open>__storage\<close>.\<close>

definition CacheStorage_has :: "string \<Rightarrow> StorageOptions option \<Rightarrow> (cache, bool) task" where
  "CacheStorage_has ident options =
     (if opt_noCache options then return_task False
      else let path = idPath ident (opt_extension options)
           in read_state (\<lambda>storage. Map_has storage path))"

definition CacheStorage_get :: "string \<Rightarrow> StorageOptions option \<Rightarrow> (cache, jsvalue) task" where
  "CacheStorage_get ident options =
     (if opt_noCache options then return_task Undefined
      else let path = idPath ident (opt_extension options)
           in read_state (\<lambda>storage. Map_get storage path))"

definition CacheStorage_set ::
  "string \<Rightarrow> jsvalue \<Rightarrow> StorageOptions option \<Rightarrow> (cache, bool) task" where
  "CacheStorage_set ident data options =
     (if opt_noCache options then return_task False
      else let path = idPath ident (opt_extension options)
           in bind_task (update_state (Map_set path data))
                (\<lambda>_. read_state (\<lambda>storage. Map_has storage path)))"

definition CacheStorage_del :: "string \<Rightarrow> StorageOptions option \<Rightarrow> (cache, bool) task" where
  "CacheStorage_del ident options =
     (if opt_noCache options then return_task False
      else let path = idPath ident (opt_extension options)
           in Map_delete path)"

section \<open>The file backend\<close>

text \<open>\<^verbatim>\<open>path.lastIndexOf("/")\<close> and \<^verbatim>\<open>path.slice(0, end)\<close>.\<close>

definition lastIndexOf :: "string \<Rightarrow> char \<Rightarrow> int" where
  "lastIndexOf s c =
     (if c \<in> set s then int (length s) - 1 - int (length (takeWhile (\<lambda>x. x \<noteq> c) (rev s)))
      else - 1)"

definition slice_to :: "string \<Rightarrow> int \<Rightarrow> string" where
  "slice_to s e = (if e < 0 then take (nat (int (length s) + e)) s else take (nat e) s)"

text \<open>
  In \<^verbatim>\<open>get\<close>: \<^verbatim>\<open>options && options.extension && options.extension !== "json"\<close>; in
  \<^verbatim>\<open>set\<close>: \<^verbatim>\<open>!options || !options.extension || options.extension === "json"\<close>. An empty
  string is falsy.
\<close>

definition raw_extension :: "StorageOptions option \<Rightarrow> bool" where
  "raw_extension options =
     (case opt_extension options of None \<Rightarrow> False | Some e \<Rightarrow> e \<noteq> [] \<and> e \<noteq> ''json'')"

definition json_extension :: "StorageOptions option \<Rightarrow> bool" where
  "json_extension options =
     (case opt_extension options of None \<Rightarrow> True | Some e \<Rightarrow> e = [] \<or> e = ''json'')"

text \<open>\<^verbatim>\<open>class FileStorage\<close>; the state is the file system.\<close>

definition FileStorage_has :: "string \<Rightarrow> StorageOptions option \<Rightarrow> (filesystem, bool) task" where
  "FileStorage_has ident options =
     (if opt_noFile options then return_task False
      else let path = idPath ident (opt_extension options)
           in bind_task (autoCatch (FS_readFile path)) (\<lambda>r. return_task (result r)))"

definition FileStorage_get ::
  "string \<Rightarrow> StorageOptions option \<Rightarrow> (filesystem, jsvalue) task" where
  "FileStorage_get ident options =
     (if opt_noFile options then return_task Undefined
      else let path = idPath ident (opt_extension options)
           in bind_task (autoCatch (FS_readFile path))
                (\<lambda>r. case r of
                   AutoCatchFailure e \<Rightarrow> return_task Undefined
                 | AutoCatchSuccess content \<Rightarrow>
                     if raw_extension options then return_task (Str content)
                     else (case JSON_parse content of
                             Inl e \<Rightarrow> throw_task e
                           | Inr v \<Rightarrow> return_task v)))"

definition FileStorage_set ::
  "string \<Rightarrow> jsvalue \<Rightarrow> StorageOptions option \<Rightarrow> (filesystem, bool) task" where
  "FileStorage_set ident data options =
     (if opt_noFile options then return_task False
      else let path = idPath ident (opt_extension options);
               json = json_extension options;
               raw = (if json then JSON_stringify data else Some (template_string data))
           in bind_task (autoCatch (FS_mkdir (slice_to path (lastIndexOf path slash))))
                (\<lambda>_. bind_task (autoCatch (FS_writeFile path raw))
                   (\<lambda>r. return_task (result r))))"

definition FileStorage_del :: "string \<Rightarrow> StorageOptions option \<Rightarrow> (filesystem, bool) task" where
  "FileStorage_del ident options =
     (if opt_noFile options then return_task False
      else let path = idPath ident (opt_extension options)
           in bind_task (autoCatch (FS_rm path)) (\<lambda>r. return_task (result r)))"

text \<open>The loop of \<^verbatim>\<open>FileStorage.list\<close> over the directory entries, and the method.\<close>

fun list_entries ::
  "string \<Rightarrow> StorageOptions option \<Rightarrow> Dirent list \<Rightarrow> (string \<times> jsvalue) list
     \<Rightarrow> (filesystem, (string \<times> jsvalue) list) task" where
  "list_entries path options [] output = return_task output"
| "list_entries path options (dirent # content) output =
     (if \<not> isFile dirent then list_entries path options content output
      else let ident = path @ dirent_name dirent
           in bind_task (FileStorage_get ident options)
                (\<lambda>data. list_entries path options content (output @ [(ident, data)])))"

definition FileStorage_list ::
  "string \<Rightarrow> StorageOptions option \<Rightarrow> (filesystem, (string \<times> jsvalue) list) task" where
  "FileStorage_list dir options =
     (if opt_noFile options then return_task []
      else let path = dirPath dir
           in bind_task (autoCatch (FS_readdir path))
                (\<lambda>r. case r of
                   AutoCatchFailure e \<Rightarrow> return_task []
                 | AutoCatchSuccess content \<Rightarrow> list_entries path options content []))"

section \<open>The dual backend\<close>

text \<open>
  \<^verbatim>\<open>class DualStorage\<close> owns a \<^verbatim>\<open>CacheStorage\<close> and a \<^verbatim>\<open>FileStorage\<close>; its state is the
  cache's map and the file system.
\<close>

record DualState =
  cache_of :: cache
  files_of :: filesystem

definition on_cache :: "(cache, 'a) task \<Rightarrow> (DualState, 'a) task" where
  "on_cache m s = (case m (cache_of s) of (r, c) \<Rightarrow> (r, s\<lparr>cache_of := c\<rparr>))"

definition on_file :: "(filesystem, 'a) task \<Rightarrow> (DualState, 'a) task" where
  "on_file m s = (case m (files_of s) of (r, fs) \<Rightarrow> (r, s\<lparr>files_of := fs\<rparr>))"

text \<open>\<^verbatim>\<open>a ?? b\<close> takes \<open>b\<close> when \<open>a\<close> is \<^verbatim>\<open>undefined\<close> or \<^verbatim>\<open>null\<close>.\<close>

definition nullish :: "jsvalue \<Rightarrow> bool" where
  "nullish v = (v = Undefined \<or> v = Null)"

definition DualStorage_has :: "string \<Rightarrow> StorageOptions option \<Rightarrow> (DualState, bool) task" where
  "DualStorage_has ident options =
     bind_task (on_cache (CacheStorage_has ident options))
       (\<lambda>cached. if cached then return_task True
                  else on_file (FileStorage_has ident options))"

definition DualStorage_get ::
  "string \<Rightarrow> StorageOptions option \<Rightarrow> (DualState, jsvalue) task" where
  "DualStorage_get ident options =
     bind_task (on_cache (CacheStorage_get ident options))
       (\<lambda>cached. if nullish cached then on_file (FileStorage_get ident options)
                  else return_task cached)"

definition DualStorage_set ::
  "string \<Rightarrow> jsvalue \<Rightarrow> StorageOptions option \<Rightarrow> (DualState, bool) task" where
  "DualStorage_set ident data options =
     bind_task (on_cache (CacheStorage_set ident data options))
       (\<lambda>cached. if cached then on_file (FileStorage_set ident data options)
                  else return_task False)"

definition DualStorage_del :: "string \<Rightarrow> StorageOptions option \<Rightarrow> (DualState, bool) task" where
  "DualStorage_del ident options =
     bind_task (on_cache (CacheStorage_del ident options))
       (\<lambda>cached. if cached then on_file (FileStorage_del ident options)
                  else return_task False)"

section \<open>The operations of the base class\<close>

text \<open>
  \<^verbatim>\<open>abstract class BaseStorage\<close>: the inherited operations call the abstract methods
  of the backend they run on. A backend is the table of its methods; \<^verbatim>\<open>has\<close> is kept
  as the \<^verbatim>\<open>Awaitable<boolean>\<close> the call returns (a boolean for the synchronous
  \<^verbatim>\<open>CacheStorage\<close>, a promise for the \<^verbatim>\<open>async\<close> methods of the other two), the other
  methods by their awaited results.
\<close>

record 's Backend =
  has_m :: "string \<Rightarrow> StorageOptions option \<Rightarrow> ('s, bool Awaitable) task"
  get_m :: "string \<Rightarrow> StorageOptions option \<Rightarrow> ('s, jsvalue) task"
  set_m :: "string \<Rightarrow> jsvalue \<Rightarrow> StorageOptions option \<Rightarrow> ('s, bool) task"
  del_m :: "string \<Rightarrow> StorageOptions option \<Rightarrow> ('s, bool) task"

definition CacheBackend :: "cache Backend" where
  "CacheBackend =
     \<lparr>has_m = (\<lambda>ident options.
        bind_task (CacheStorage_has ident options) (\<lambda>b. return_task (Immediate b))),
      get_m = CacheStorage_get, set_m = CacheStorage_set, del_m = CacheStorage_del\<rparr>"

definition FileBackend :: "filesystem Backend" where
  "FileBackend =
     \<lparr>has_m = (\<lambda>ident options.
        bind_task (FileStorage_has ident options) (\<lambda>b. return_task (Promise b))),
      get_m = FileStorage_get, set_m = FileStorage_set, del_m = FileStorage_del\<rparr>"

definition DualBackend :: "DualState Backend" where
  "DualBackend =
     \<lparr>has_m = (\<lambda>ident options.
        bind_task (DualStorage_has ident options) (\<lambda>b. return_task (Promise b))),
      get_m = DualStorage_get, set_m = DualStorage_set, del_m = DualStorage_del\<rparr>"

text \<open>
  \<^verbatim>\<open>setAll\<close> and \<^verbatim>\<open>delAll\<close>: \<^verbatim>\<open>result &&= await this.set(id, data, options)\<close> evaluates
  its right-hand side only while \<^verbatim>\<open>result\<close> (here \<open>so_far\<close>) is true.
\<close>

fun setAll_loop ::
  "'s Backend \<Rightarrow> StorageOptions option \<Rightarrow> (string \<times> jsvalue) list \<Rightarrow> bool \<Rightarrow> ('s, bool) task" where
  "setAll_loop B options [] so_far = return_task so_far"
| "setAll_loop B options ((ident, data) # rest) so_far =
     (if so_far then bind_task (set_m B ident data options) (\<lambda>r. setAll_loop B options rest r)
      else setAll_loop B options rest so_far)"

definition setAll ::
  "'s Backend \<Rightarrow> (string \<times> jsvalue) list \<Rightarrow> StorageOptions option \<Rightarrow> ('s, bool) task" where
  "setAll B entries options = setAll_loop B options entries True"

fun delAll_loop ::
  "'s Backend \<Rightarrow> StorageOptions option \<Rightarrow> string list \<Rightarrow> bool \<Rightarrow> ('s, bool) task" where
  "delAll_loop B options [] so_far = return_task so_far"
| "delAll_loop B options (ident # rest) so_far =
     (if so_far then bind_task (del_m B ident options) (\<lambda>r. delAll_loop B options rest r)
      else delAll_loop B options rest so_far)"

definition delAll :: "'s Backend \<Rightarrow> string list \<Rightarrow> StorageOptions option \<Rightarrow> ('s, bool) task" where
  "delAll B ids options = delAll_loop B options ids True"

text \<open>
  \<^verbatim>\<open>ensure\<close>: the condition is \<^verbatim>\<open>this.has(id, options)\<close> itself, not awaited.
\<close>

definition ensure ::
  "'s Backend \<Rightarrow> string \<Rightarrow> jsvalue \<Rightarrow> StorageOptions option \<Rightarrow> ('s, jsvalue) task" where
  "ensure B ident fallback options =
     bind_task (has_m B ident options)
       (\<lambda>present. if truthy present then get_m B ident options
                   else bind_task (set_m B ident fallback options) (\<lambda>_. return_task fallback))"

text \<open>
  \<^verbatim>\<open>expect\<close>: \<^verbatim>\<open>(await this.has(id)) && (await predicate((await this.get(id, options))!, id, this))\<close>.
  The predicate receives the storage, so it is a task on the backend's state.
\<close>

type_synonym 's DataPredicate = "jsvalue \<Rightarrow> string \<Rightarrow> ('s, bool) task"

definition expect ::
  "'s Backend \<Rightarrow> string \<Rightarrow> 's DataPredicate \<Rightarrow> StorageOptions option \<Rightarrow> ('s, bool) task" where
  "expect B ident predicate options =
     bind_task (has_m B ident None)
       (\<lambda>present. if await present
                   then bind_task (get_m B ident options) (\<lambda>data. predicate data ident)
                   else return_task False)"

section \<open>The batch contract in the words of the specification\<close>

text \<open>
  \<^verbatim>\<open>setAll\<close> as the specification describes it: every entry is attempted, in input
  order, whatever the earlier outcomes; the result is the conjunction of all outcomes.
\<close>

fun setAll_all_attempted ::
  "'s Backend \<Rightarrow> (string \<times> jsvalue) list \<Rightarrow> StorageOptions option \<Rightarrow> ('s, bool) task" where
  "setAll_all_attempted B [] options = return_task True"
| "setAll_all_attempted B ((ident, data) # rest) options =
     bind_task (set_m B ident data options)
       (\<lambda>r. bind_task (setAll_all_attempted B rest options) (\<lambda>rs. return_task (r \<and> rs)))"

text \<open>\<^verbatim>\<open>delAll\<close> as the specification describes it: the same, with \<^verbatim>\<open>del\<close>.\<close>

fun delAll_all_attempted ::
  "'s Backend \<Rightarrow> string list \<Rightarrow> StorageOptions option \<Rightarrow> ('s, bool) task" where
  "delAll_all_attempted B [] options = return_task True"
| "delAll_all_attempted B (ident # rest) options =
     bind_task (del_m B ident options)
       (\<lambda>r. bind_task (delAll_all_attempted B rest options) (\<lambda>rs. return_task (r \<and> rs)))"

section \<open>Properties of the identifier resolver\<close>

lemma endsWith_append: "endsWith (xs @ t) t"
  by (simp add: endsWith_def)

lemma endsWith_prepend: "endsWith s t \<Longrightarrow> endsWith (p @ s) t"
  by (auto simp: endsWith_def)

lemma replace_backslashes_free: "backslash \<notin> set s \<Longrightarrow> replace_backslashes s = s"
  by (induction s) (auto simp: replace_backslashes_def)

lemma replace_backslashes_set: "backslash \<notin> set (replace_backslashes s)"
  by (auto simp: replace_backslashes_def backslash_def slash_def)

lemma slash_free_drop: "backslash \<notin> set s \<Longrightarrow> backslash \<notin> set (slice1 s)"
  by (auto simp: slice1_def dest: in_set_dropD)

lemma idPath_ends: "endsWith (idPath i e) (extension_or_default e)"
proof -
  define ext where "ext = extension_or_default e"
  have a: "endsWith (rootPath @ ''/'' @ x @ ''.'' @ ext) ext" for x
    using endsWith_append [of "rootPath @ ''/'' @ x @ ''.''" ext] by simp
  have b: "endsWith x ext \<Longrightarrow> endsWith (rootPath @ ''/'' @ x) ext" for x
    using endsWith_prepend [of x ext "rootPath @ ''/''"] by simp
  show ?thesis
    unfolding idPath_def Let_def ext_def [symmetric]
    by (simp only: a b split: if_split) (use b in blast)
qed

lemma idPath_backslash_free:
  "backslash \<notin> set (extension_or_default e) \<Longrightarrow> backslash \<notin> set (idPath i e)"
  using replace_backslashes_set [of i] slash_free_drop [of "replace_backslashes i"]
  by (auto simp: idPath_def Let_def rootPath_def backslash_def)

lemma idPath_not_slash_first: "\<not> startsWith (idPath i e) ''/''"
  by (simp add: idPath_def Let_def rootPath_def startsWith_def)

text \<open>
  C3, as the code has it: resolving an already resolved location again does not append
  the extension a second time, but it does prepend the root directory once more. (The
  extension must be free of backslashes, which the resolver would rewrite inside the
  resolved location.)
\<close>

theorem idPath_twice:
  "backslash \<notin> set (extension_or_default e) \<Longrightarrow>
     idPath (idPath i e) e = rootPath @ ''/'' @ idPath i e"
proof -
  assume free: "backslash \<notin> set (extension_or_default e)"
  have r: "replace_backslashes (idPath i e) = idPath i e"
    using free by (intro replace_backslashes_free idPath_backslash_free)
  show ?thesis
    unfolding idPath_def [of "idPath i e" e] Let_def r
    using idPath_not_slash_first [of i e] idPath_ends [of i e] by simp
qed

theorem idPath_twice_witness:
  "backslash \<notin> set (extension_or_default (Some ''txt'')) \<and>
   idPath (idPath ''notes/today'' (Some ''txt'')) (Some ''txt'') = ''./data/./data/notes/today.txt''"
proof -
  have free: "backslash \<notin> set (extension_or_default (Some ''txt''))"
    by (simp add: extension_or_default_def backslash_def)
  have "idPath ''notes/today'' (Some ''txt'') = ''./data/notes/today.txt''"
    by (simp add: idPath_def Let_def extension_or_default_def replace_backslashes_def
        startsWith_def endsWith_def rootPath_def backslash_def slash_def)
  with idPath_twice [OF free, of "''notes/today''"] free show ?thesis
    by (simp add: rootPath_def)
qed

text \<open>
  The claim C3 as the spec states it, idempotence, fails already for the identifier
  \<open>a\<close> and the default extension.
\<close>

theorem idPath_not_idempotent:
  "idPath (idPath ''a'' None) None \<noteq> idPath ''a'' None"
  by (simp add: idPath_def Let_def extension_or_default_def defaultOptions_def
      replace_backslashes_def startsWith_def endsWith_def rootPath_def backslash_def slash_def
      slice1_def)

section \<open>Tasks that only read\<close>

lemma bind_return: "bind_task (return_task a) f = f a"
  by (rule ext) (simp add: bind_task_def return_task_def)

lemma on_cache_return: "on_cache (return_task a) s = (Inr a, s)"
  by (simp add: on_cache_def return_task_def)

lemma on_cache_read: "on_cache (read_state f) s = (Inr (f (cache_of s)), s)"
  by (simp add: on_cache_def read_state_def)

lemma on_file_state: "snd (m (files_of s)) = files_of s \<Longrightarrow> snd (on_file m s) = s"
  by (cases "m (files_of s)") (simp add: on_file_def)

lemma on_file_fst: "fst (on_file m s) = fst (m (files_of s))"
  by (simp add: on_file_def split: prod.splits)

lemma FS_readFile_state: "snd (FS_readFile path fs) = fs"
  by (simp add: FS_readFile_def split: option.splits node.splits)

lemma FileStorage_has_state: "snd (FileStorage_has ident options fs) = fs"
proof (cases "FS_readFile (idPath ident (opt_extension options)) fs")
  case (Pair r fs')
  with FS_readFile_state [of "idPath ident (opt_extension options)" fs] have "fs' = fs"
    by simp
  with Pair show ?thesis
    by (simp add: FileStorage_has_def Let_def bind_task_def autoCatch_def return_task_def
        split: sum.splits)
qed

lemma FileStorage_get_state: "snd (FileStorage_get ident options fs) = fs"
proof (cases "FS_readFile (idPath ident (opt_extension options)) fs")
  case (Pair r fs')
  with FS_readFile_state [of "idPath ident (opt_extension options)" fs] have "fs' = fs"
    by simp
  with Pair show ?thesis
    by (simp add: FileStorage_get_def Let_def bind_task_def autoCatch_def return_task_def
        throw_task_def split: sum.splits AutoCatchResult.splits)
qed

section \<open>Failures of the file system\<close>

text \<open>\<^verbatim>\<open>has\<close>, \<^verbatim>\<open>set\<close> and \<^verbatim>\<open>del\<close> of the file backend never throw.\<close>

lemma autoCatch_never_throws: "\<exists>r s'. autoCatch promise s = (Inr r, s')"
  by (cases "promise s") (auto simp: autoCatch_def split: sum.splits)

lemma autoCatch_then_result:
  "\<exists>b s'. bind_task (autoCatch promise) (\<lambda>r. return_task (result r)) s = (Inr b, s')"
  by (cases "promise s") (auto simp: bind_task_def autoCatch_def return_task_def split: sum.splits)

lemma FileStorage_has_never_throws: "\<exists>b. fst (FileStorage_has ident options fs) = Inr b"
  using autoCatch_then_result [of "FS_readFile (idPath ident (opt_extension options))" fs]
  by (auto simp: FileStorage_has_def Let_def return_task_def)

lemma FileStorage_del_never_throws: "\<exists>b. fst (FileStorage_del ident options fs) = Inr b"
  using autoCatch_then_result [of "FS_rm (idPath ident (opt_extension options))" fs]
  by (auto simp: FileStorage_del_def Let_def return_task_def)

lemma FileStorage_set_never_throws: "\<exists>b. fst (FileStorage_set ident data options fs) = Inr b"
proof (cases "opt_noFile options")
  case True
  then show ?thesis by (auto simp: FileStorage_set_def return_task_def)
next
  case False
  define path where "path = idPath ident (opt_extension options)"
  define raw where
    "raw = (if json_extension options then JSON_stringify data else Some (template_string data))"
  obtain r fs1 where m: "autoCatch (FS_mkdir (slice_to path (lastIndexOf path slash))) fs = (Inr r, fs1)"
    using autoCatch_never_throws [of "FS_mkdir (slice_to path (lastIndexOf path slash))" fs]
    by auto
  obtain b fs2 where w:
    "bind_task (autoCatch (FS_writeFile path raw)) (\<lambda>r. return_task (result r)) fs1 = (Inr b, fs2)"
    using autoCatch_then_result [of "FS_writeFile path raw" fs1] by auto
  show ?thesis
    using False m w
    by (simp add: FileStorage_set_def Let_def path_def [symmetric] raw_def [symmetric]
        bind_task_def [of "autoCatch (FS_mkdir (slice_to path (lastIndexOf path slash)))"])
qed

text \<open>A presence check returns a boolean and leaves the state as it was.\<close>

lemma FileStorage_has_reads: "\<exists>b. FileStorage_has ident options fs = (Inr b, fs)"
  using FileStorage_has_never_throws [of ident options fs] FileStorage_has_state [of ident options fs]
  by (cases "FileStorage_has ident options fs") auto

lemma CacheStorage_has_reads:
  "\<exists>b. CacheStorage_has ident options m = (Inr b, m)"
  by (auto simp: CacheStorage_has_def Let_def return_task_def read_state_def)

lemma DualStorage_has_reads: "\<exists>b. DualStorage_has ident options s = (Inr b, s)"
proof -
  obtain c where c: "CacheStorage_has ident options (cache_of s) = (Inr c, cache_of s)"
    using CacheStorage_has_reads by blast
  obtain f where f: "FileStorage_has ident options (files_of s) = (Inr f, files_of s)"
    using FileStorage_has_reads by blast
  from c f show ?thesis
    by (auto simp: DualStorage_has_def bind_task_def on_cache_def on_file_def return_task_def)
qed

section \<open>The batch operations\<close>

lemma setAll_loop_stopped: "setAll_loop B options entries False s = (Inr False, s)"
  by (induction entries) (auto simp: return_task_def)

lemma delAll_loop_stopped: "delAll_loop B options ids False s = (Inr False, s)"
  by (induction ids) (auto simp: return_task_def)

text \<open>
  The two loops as the code runs them: once a call has returned \<^verbatim>\<open>false\<close>, the
  right-hand side of \<^verbatim>\<open>&&=\<close> is not evaluated again, so the entries after the first
  failure are skipped.
\<close>

lemma setAll_delAll_stop_at_first_failure:
  "setAll B [] options s = (Inr True, s)
   \<and> setAll B ((ident, data) # rest) options s =
       (case set_m B ident data options s of
          (Inl e, s') \<Rightarrow> (Inl e, s')
        | (Inr written, s') \<Rightarrow> if written then setAll B rest options s' else (Inr False, s'))
   \<and> delAll B [] options s = (Inr True, s)
   \<and> delAll B (ident # ids) options s =
       (case del_m B ident options s of
          (Inl e, s') \<Rightarrow> (Inl e, s')
        | (Inr deleted, s') \<Rightarrow> if deleted then delAll B ids options s' else (Inr False, s'))"
  by (simp add: setAll_def delAll_def return_task_def bind_task_def setAll_loop_stopped
      delAll_loop_stopped split: prod.splits sum.splits)

text \<open>
  C2 at the failing inputs. On a cache that holds \<open>y\<close> and not \<open>missing\<close>,
  \<^verbatim>\<open>delAll(["missing", "y"])\<close> returns \<^verbatim>\<open>false\<close> and leaves \<open>y\<close> stored; attempting
  every identifier deletes it. On the file backend the same happens to the file of
  \<open>y\<close>. Where \<open>./data/a\<close> is a regular file, so that writing \<open>a/b\<close> fails,
  \<^verbatim>\<open>setAll([["a/b", 1], ["x", 2]])\<close> returns \<^verbatim>\<open>false\<close> and leaves \<open>x\<close> unwritten;
  attempting every entry writes it.
\<close>

theorem setAll_delAll_skip_after_failure:
  "delAll CacheBackend [''missing'', ''y''] None [(''./data/y.json'', Num 2)]
     = (Inr False, [(''./data/y.json'', Num 2)])
   \<and> delAll_all_attempted CacheBackend [''missing'', ''y''] None [(''./data/y.json'', Num 2)]
     = (Inr False, [])
   \<and> delAll FileBackend [''missing'', ''y''] None
       [([''data''], Directory), ([''data'', ''y.json''], File ''2'')]
     = (Inr False, [([''data''], Directory), ([''data'', ''y.json''], File ''2'')])
   \<and> delAll_all_attempted FileBackend [''missing'', ''y''] None
       [([''data''], Directory), ([''data'', ''y.json''], File ''2'')]
     = (Inr False, [([''data''], Directory)])
   \<and> setAll FileBackend [(''a/b'', Num 1), (''x'', Num 2)] None
       [([''data''], Directory), ([''data'', ''a''], File ''1'')]
     = (Inr False, [([''data''], Directory), ([''data'', ''a''], File ''1'')])
   \<and> setAll_all_attempted FileBackend [(''a/b'', Num 1), (''x'', Num 2)] None
       [([''data''], Directory), ([''data'', ''a''], File ''1'')]
     = (Inr False, [([''data''], Directory), ([''data'', ''a''], File ''1''),
          ([''data'', ''x.json''], File ''2'')])"
  by code_simp

section \<open>Ensure\<close>

text \<open>
  On the cache backend, whose \<^verbatim>\<open>has\<close> returns a boolean, \<^verbatim>\<open>ensure\<close> returns the stored
  value of an entry that is present and writes nothing, and stores and returns the
  fallback otherwise.
\<close>

lemma ensure_CacheBackend:
  "\<not> opt_noCache options \<Longrightarrow>
     ensure CacheBackend ident fallback options m =
       (let path = idPath ident (opt_extension options)
        in if Map_has m path then (Inr (Map_get m path), m)
           else (Inr fallback, Map_set path fallback m))"
  by (simp add: ensure_def CacheBackend_def CacheStorage_has_def CacheStorage_get_def
      CacheStorage_set_def Let_def bind_task_def read_state_def return_task_def
      update_state_def)

text \<open>
  On the file backend and on the dual backend \<^verbatim>\<open>has\<close> returns a promise, so
  \<^verbatim>\<open>ensure\<close> is \<^verbatim>\<open>get\<close>: the fallback is never written.
\<close>

lemma ensure_FileBackend_is_get:
  "ensure FileBackend ident fallback options fs = FileStorage_get ident options fs"
proof -
  obtain b where "FileStorage_has ident options fs = (Inr b, fs)"
    using FileStorage_has_reads by blast
  then show ?thesis
    by (simp add: ensure_def FileBackend_def bind_task_def return_task_def)
qed

lemma ensure_DualBackend_is_get:
  "ensure DualBackend ident fallback options s = DualStorage_get ident options s"
proof -
  obtain b where "DualStorage_has ident options s = (Inr b, s)"
    using DualStorage_has_reads by blast
  then show ?thesis
    by (simp add: ensure_def DualBackend_def bind_task_def return_task_def)
qed

text \<open>
  C1 at the failing input: on a fresh file backend, and on a fresh dual backend,
  \<^verbatim>\<open>ensure("x", 5)\<close> returns \<^verbatim>\<open>undefined\<close> and writes nothing. The promise that
  \<^verbatim>\<open>has\<close> returns is not awaited, so the branch that reads is always taken.
\<close>

theorem ensure_fresh_store:
  "ensure FileBackend ''x'' (Num 5) None [] = (Inr Undefined, [])
   \<and> ensure DualBackend ''x'' (Num 5) None \<lparr>cache_of = [], files_of = []\<rparr>
       = (Inr Undefined, \<lparr>cache_of = [], files_of = []\<rparr>)"
  by code_simp

section \<open>Malformed content\<close>

text \<open>
  C4 at the failing input: \<^verbatim>\<open>get("x")\<close> on a file \<open>./data/x.json\<close> whose content is
  the malformed JSON text \<open>{\<close> throws the \<^verbatim>\<open>SyntaxError\<close> of \<^verbatim>\<open>JSON.parse\<close>, which is
  called outside \<^verbatim>\<open>autoCatch\<close>.
\<close>

theorem FileStorage_get_malformed:
  "FileStorage_get ''x'' None [([''data''], Directory), ([''data'', ''x.json''], File ''{'')]
     = (Inl SyntaxError, [([''data''], Directory), ([''data'', ''x.json''], File ''{'')])"
  by code_simp

section \<open>The dual backend: writes and reads\<close>

text \<open>
  C5: \<^verbatim>\<open>Dual.set(id, v, options)\<close> with \<^verbatim>\<open>noCache: true\<close> returns \<^verbatim>\<open>false\<close> and leaves
  the cache's map and the file system as they were, whatever the other options are.
\<close>

theorem DualStorage_set_noCache:
  "DualStorage_set ident data (Some (opts\<lparr>noCache := Some True\<rparr>)) s = (Inr False, s)"
  by (simp add: DualStorage_set_def CacheStorage_set_def opt_noCache_def truthy_flag_def
      bind_task_def on_cache_return return_task_def)

text \<open>
  C8, as the code has it: \<^verbatim>\<open>Dual.get\<close> returns the cache's value when \<^verbatim>\<open>noCache\<close>
  is not set and the cache holds a value other than \<^verbatim>\<open>null\<close> and \<^verbatim>\<open>undefined\<close> at
  the resolved location; when \<^verbatim>\<open>noCache\<close> is set or the cache holds no entry there, it
  returns what the file backend's \<^verbatim>\<open>get\<close> returns or throws; and it never changes the
  cache or the file system.
\<close>

theorem DualStorage_get_cases:
  "(\<not> opt_noCache options
      \<and> map_of (cache_of s) (idPath ident (opt_extension options)) = Some v
      \<and> \<not> nullish v
      \<longrightarrow> DualStorage_get ident options s = (Inr v, s))
   \<and> (opt_noCache options
      \<or> map_of (cache_of s) (idPath ident (opt_extension options)) = None
      \<longrightarrow> fst (DualStorage_get ident options s)
            = fst (FileStorage_get ident options (files_of s)))
   \<and> snd (DualStorage_get ident options s) = s"
proof (intro conjI impI)
  assume "\<not> opt_noCache options
      \<and> map_of (cache_of s) (idPath ident (opt_extension options)) = Some v
      \<and> \<not> nullish v"
  then show "DualStorage_get ident options s = (Inr v, s)"
    by (simp add: DualStorage_get_def CacheStorage_get_def Let_def bind_task_def Map_get_def
        return_task_def on_cache_read)
next
  assume "opt_noCache options
      \<or> map_of (cache_of s) (idPath ident (opt_extension options)) = None"
  then show "fst (DualStorage_get ident options s)
      = fst (FileStorage_get ident options (files_of s))"
    by (auto simp: DualStorage_get_def CacheStorage_get_def Let_def bind_task_def Map_get_def
        nullish_def on_file_fst on_cache_read on_cache_return)
next
  show "snd (DualStorage_get ident options s) = s"
    by (simp add: DualStorage_get_def CacheStorage_get_def Let_def bind_task_def
        return_task_def on_file_state FileStorage_get_state on_cache_read on_cache_return)
qed

theorem DualStorage_get_cases_witness:
  "(\<not> opt_noCache None
      \<and> map_of (cache_of \<lparr>cache_of = [(''./data/x.json'', Num 1)], files_of = []\<rparr>)
           (idPath ''x'' (opt_extension None)) = Some (Num 1)
      \<and> \<not> nullish (Num 1))
   \<and> DualStorage_get ''x'' None \<lparr>cache_of = [(''./data/x.json'', Num 1)], files_of = []\<rparr>
       = (Inr (Num 1), \<lparr>cache_of = [(''./data/x.json'', Num 1)], files_of = []\<rparr>)
   \<and> map_of (cache_of \<lparr>cache_of = [],
         files_of = [([''data''], Directory), ([''data'', ''x.json''], File ''2'')]\<rparr>)
        (idPath ''x'' (opt_extension None)) = None
   \<and> fst (DualStorage_get ''x'' None \<lparr>cache_of = [],
         files_of = [([''data''], Directory), ([''data'', ''x.json''], File ''2'')]\<rparr>)
       = Inr (Num 2)"
proof -
  let ?sa = "\<lparr>cache_of = [(''./data/x.json'', Num 1)], files_of = []\<rparr>"
  let ?sb = "\<lparr>cache_of = [],
    files_of = [([''data''], Directory), ([''data'', ''x.json''], File ''2'')]\<rparr>"
  have ha: "\<not> opt_noCache None
      \<and> map_of (cache_of ?sa) (idPath ''x'' (opt_extension None)) = Some (Num 1)
      \<and> \<not> nullish (Num 1)"
    by code_simp
  have a: "DualStorage_get ''x'' None ?sa = (Inr (Num 1), ?sa)"
    using DualStorage_get_cases [of None ?sa "''x''" "Num 1"] ha by blast
  have hb: "map_of (cache_of ?sb) (idPath ''x'' (opt_extension None)) = None"
    by code_simp
  have "fst (DualStorage_get ''x'' None ?sb) = fst (FileStorage_get ''x'' None (files_of ?sb))"
    using DualStorage_get_cases [of None ?sb "''x''" "Num 1"] hb by blast
  moreover have "fst (FileStorage_get ''x'' None (files_of ?sb)) = Inr (Num 2)"
    by code_simp
  ultimately have b: "fst (DualStorage_get ''x'' None ?sb) = Inr (Num 2)"
    by simp
  from ha a hb b show ?thesis
    by blast
qed

text \<open>
  C8 as the spec states it fails in two ways. With \<^verbatim>\<open>noCache\<close> set: the cache holds
  \<open>1\<close> at the resolved location of \<open>x\<close>, no file exists, and \<^verbatim>\<open>Dual.get\<close> returns
  \<^verbatim>\<open>undefined\<close>. With \<^verbatim>\<open>null\<close> cached: the cache holds \<^verbatim>\<open>null\<close> at the location, the
  file holds \<open>2\<close>, and \<^verbatim>\<open>Dual.get\<close> returns \<open>2\<close>.
\<close>

theorem DualStorage_get_not_always_cache:
  "Map_has [(''./data/x.json'', Num 1)] (idPath ''x'' None)
   \<and> Map_get [(''./data/x.json'', Num 1)] (idPath ''x'' None) = Num 1
   \<and> DualStorage_get ''x'' (Some \<lparr>extension = None, noCache = Some True, noFile = None\<rparr>)
       \<lparr>cache_of = [(''./data/x.json'', Num 1)], files_of = []\<rparr>
       = (Inr Undefined, \<lparr>cache_of = [(''./data/x.json'', Num 1)], files_of = []\<rparr>)
   \<and> Map_has [(''./data/x.json'', Null)] (idPath ''x'' None)
   \<and> Map_get [(''./data/x.json'', Null)] (idPath ''x'' None) = Null
   \<and> fst (DualStorage_get ''x'' None
       \<lparr>cache_of = [(''./data/x.json'', Null)],
        files_of = [([''data''], Directory), ([''data'', ''x.json''], File ''2'')]\<rparr>)
       = Inr (Num 2)"
  by code_simp

section \<open>Parent directories and the round trip\<close>

text \<open>On the cache backend a value that was set is the value that is read.\<close>

lemma CacheStorage_round_trip:
  "\<not> opt_noCache options \<Longrightarrow>
     bind_task (CacheStorage_set ident v options) (\<lambda>_. CacheStorage_get ident options) m
       = (Inr v, Map_set (idPath ident (opt_extension options)) v m)"
  by (simp add: CacheStorage_set_def CacheStorage_get_def Let_def bind_task_def
      update_state_def read_state_def Map_set_def Map_get_def update_conv')

text \<open>One missing directory whose parent exists is created, and the write succeeds.\<close>

lemma FileStorage_set_one_missing_directory:
  "FileStorage_set ''a/b'' (Num 1) None [([''data''], Directory)]
     = (Inr True, [([''data''], Directory), ([''data'', ''a''], Directory),
          ([''data'', ''a'', ''b.json''], File ''1'')])"
  by code_simp

text \<open>
  C6 at the failing input: the root \<open>./data\<close> exists, \<open>./data/a\<close> and \<open>./data/a/b\<close>
  do not. \<^verbatim>\<open>set("a/b/c", 1)\<close> returns \<^verbatim>\<open>false\<close> and creates nothing: \<^verbatim>\<open>FS.mkdir\<close> is
  called on \<open>./data/a/b\<close> alone, without \<^verbatim>\<open>recursive\<close>.
\<close>

theorem FileStorage_set_two_missing_directories:
  "FileStorage_set ''a/b/c'' (Num 1) None [([''data''], Directory)]
     = (Inr False, [([''data''], Directory)])"
  by code_simp

text \<open>
  C7 at the failing input: in a fresh working directory (no \<open>./data\<close> yet), after
  \<^verbatim>\<open>set("a/b", {value: 123})\<close> with default options \<^verbatim>\<open>get("a/b")\<close> returns
  \<^verbatim>\<open>undefined\<close>: nothing was written.
\<close>

theorem FileStorage_round_trip_fresh_directory:
  "bind_task (FileStorage_set ''a/b'' (Obj [(''value'', Num 123)]) None)
     (\<lambda>written. bind_task (FileStorage_get ''a/b'' None) (\<lambda>v. return_task (written, v))) []
     = (Inr (False, Undefined), [])"
  by code_simp

section \<open>Listing a directory\<close>

text \<open>
  When \<^verbatim>\<open>list\<close> returns, it has one pair per regular file directly inside the
  directory, in the order of the directory; the pair's location is the directory's
  path followed by the file's name. Subdirectories are skipped.
\<close>

lemma list_entries_locations:
  "list_entries path options content out fs = (Inr listed, fs') \<Longrightarrow>
     map fst listed = map fst out @ map (\<lambda>d. path @ dirent_name d) (filter isFile content)"
proof (induction content arbitrary: out fs)
  case Nil
  then show ?case by (simp add: return_task_def)
next
  case (Cons dirent content)
  show ?case
  proof (cases "isFile dirent")
    case False
    with Cons show ?thesis by simp
  next
    case True
    obtain r fs1 where g: "FileStorage_get (path @ dirent_name dirent) options fs = (r, fs1)"
      by (cases "FileStorage_get (path @ dirent_name dirent) options fs")
    show ?thesis
    proof (cases r)
      case (Inl e)
      with Cons.prems True g show ?thesis
        by (simp add: Let_def bind_task_def)
    next
      case (Inr data)
      with Cons.prems True g have
        "list_entries path options content (out @ [(path @ dirent_name dirent, data)]) fs1
           = (Inr listed, fs')"
        by (simp add: Let_def bind_task_def)
      from Cons.IH [OF this] True show ?thesis
        by simp
    qed
  qed
qed

lemma FileStorage_list_locations:
  "FileStorage_list dir options fs = (Inr listed, fs') \<Longrightarrow> \<not> opt_noFile options \<Longrightarrow>
   FS_readdir (dirPath dir) fs = (Inr content, fs1) \<Longrightarrow>
     map fst listed = map (\<lambda>d. dirPath dir @ dirent_name d) (filter isFile content)"
  using list_entries_locations [of "dirPath dir" options content "[]" fs1 listed fs']
  by (simp add: FileStorage_list_def Let_def bind_task_def autoCatch_def)

text \<open>
  C9 at the failing input: under an existing \<open>./data\<close>, \<^verbatim>\<open>set("dir/a", {value: 123})\<close>
  succeeds and \<^verbatim>\<open>get("dir/a")\<close> reads the value back, but \<^verbatim>\<open>list("dir")\<close> pairs the
  location \<open>./data/dir/a.json\<close> with \<^verbatim>\<open>undefined\<close>: it passes the resolved location to
  \<^verbatim>\<open>get\<close>, which resolves it again and reads \<open>./data/./data/dir/a.json\<close>.
\<close>

theorem FileStorage_list_after_set:
  "fst (bind_task (FileStorage_set ''dir/a'' (Obj [(''value'', Num 123)]) None)
     (\<lambda>written. bind_task (FileStorage_get ''dir/a'' None)
        (\<lambda>v. bind_task (FileStorage_list ''dir'' None)
           (\<lambda>listed. return_task (written, v, listed)))) [([''data''], Directory)])
     = Inr (True, Obj [(''value'', Num 123)], [(''./data/dir/a.json'', Undefined)])"
  by code_simp

section \<open>Expect\<close>

text \<open>
  C10: \<^verbatim>\<open>expect(id, predicate, options)\<close> decides existence by \<^verbatim>\<open>has(id)\<close> without
  the options, and hands the predicate the value of \<^verbatim>\<open>get(id, options)\<close>. So on the
  file backend, for an entry that exists, \<^verbatim>\<open>expect\<close> with \<^verbatim>\<open>noFile: true\<close> is the
  predicate's verdict on \<^verbatim>\<open>undefined\<close>.
\<close>

theorem expect_existence_without_options:
  "(has_m B ident None s = (Inr present, s1) \<longrightarrow>
      expect B ident predicate options s =
        (if await present
         then bind_task (get_m B ident options) (\<lambda>data. predicate data ident) s1
         else (Inr False, s1)))
   \<and> (FileStorage_has ident None fs = (Inr True, fs1) \<longrightarrow>
      expect FileBackend ident predicate (Some (opts\<lparr>noFile := Some True\<rparr>)) fs
        = predicate Undefined ident fs1)"
  by (simp add: expect_def bind_task_def return_task_def FileBackend_def FileStorage_get_def
      opt_noFile_def truthy_flag_def)

theorem expect_existence_without_options_witness:
  "has_m FileBackend ''x'' None [([''data''], Directory), ([''data'', ''x.json''], File ''5'')]
     = (Inr (Promise True), [([''data''], Directory), ([''data'', ''x.json''], File ''5'')])
   \<and> expect FileBackend ''x'' (\<lambda>data ident. return_task (data = Undefined))
       (Some \<lparr>extension = Some ''txt'', noCache = None, noFile = None\<rparr>)
       [([''data''], Directory), ([''data'', ''x.json''], File ''5'')]
     = (Inr True, [([''data''], Directory), ([''data'', ''x.json''], File ''5'')])
   \<and> FileStorage_has ''x'' None [([''data''], Directory), ([''data'', ''x.json''], File ''5'')]
     = (Inr True, [([''data''], Directory), ([''data'', ''x.json''], File ''5'')])
   \<and> expect FileBackend ''x'' (\<lambda>data ident. return_task (data = Undefined))
       (Some (\<lparr>extension = None, noCache = None, noFile = None\<rparr>\<lparr>noFile := Some True\<rparr>))
       [([''data''], Directory), ([''data'', ''x.json''], File ''5'')]
     = (Inr True, [([''data''], Directory), ([''data'', ''x.json''], File ''5'')])"
proof -
  let ?fs = "[([''data''], Directory), ([''data'', ''x.json''], File ''5'')]"
  let ?p = "\<lambda>(data :: jsvalue) (ident :: string). (return_task (data = Undefined) :: (filesystem, bool) task)"
  let ?txt = "Some \<lparr>extension = Some ''txt'', noCache = None, noFile = None\<rparr>"
  let ?none = "\<lparr>extension = None, noCache = None, noFile = None\<rparr>"
  note inst = expect_existence_without_options
    [where B = FileBackend and ident = "''x''" and s = ?fs and present = "Promise True"
       and ?s1.0 = ?fs and predicate = ?p and options = ?txt and fs = ?fs and ?fs1.0 = ?fs
       and opts = ?none]
  have h1: "has_m FileBackend ''x'' None ?fs = (Inr (Promise True), ?fs)"
    by code_simp
  have e1: "expect FileBackend ''x'' ?p ?txt ?fs =
      (if await (Promise True)
       then bind_task (get_m FileBackend ''x'' ?txt) (\<lambda>data. ?p data ''x'') ?fs
       else (Inr False, ?fs))"
    using inst h1 by blast
  have v1: "(if await (Promise True)
       then bind_task (get_m FileBackend ''x'' ?txt) (\<lambda>data. ?p data ''x'') ?fs
       else (Inr False, ?fs)) = (Inr True, ?fs)"
    by code_simp
  have h2: "FileStorage_has ''x'' None ?fs = (Inr True, ?fs)"
    by code_simp
  have e2: "expect FileBackend ''x'' ?p (Some (?none\<lparr>noFile := Some True\<rparr>)) ?fs
      = ?p Undefined ''x'' ?fs"
    using inst h2 by blast
  have v2: "?p Undefined ''x'' ?fs = (Inr True, ?fs)"
    by (simp add: return_task_def)
  from h1 e1 v1 h2 e2 v2 show ?thesis
    by (simp only: simp_thms)
qed

end
